theory Spec2Isabelle
  imports Complex_Main "HOL-Library.Multiset"
begin

section \<open>Values\<close>

text \<open>
  The engine computes on C++ \<open>double\<close>. A \<open>double\<close> is modelled as a \<open>real\<close>: arithmetic is
  exact, there is no rounding and no overflow. The two places where the source depends on a
  non-finite value are written out: a best gain that starts at minus infinity is an
  \<open>xdouble\<close>, and a quotient \<open>0.0 / 0\<close> (a NaN, for which every comparison is false) is an
  explicit branch of the function that computes it.

  Sample indices, feature indices and the row length are C++ \<open>int\<close> and are modelled as
  \<open>int\<close>; \<open>size_t\<close> counts are \<open>nat\<close>, with the conversion from \<open>int\<close> written out.
  A read \<open>v[k]\<close> of a vector is \<open>vec_at v k\<close>; the source never checks the range of \<open>k\<close>.
\<close>

datatype xdouble = NegInf | Fin real



definition vec_at :: "'a list \<Rightarrow> int \<Rightarrow> 'a" where
  "vec_at v k = v ! nat k"


definition EPS :: real where
  "EPS = 1 / 10 ^ 12"

section \<open>Node (include/tree/Node.hpp)\<close>

text \<open>
  \<open>struct Node\<close> holds the flag \<open>isLeaf\<close>, the common fields \<open>samples\<close> and \<open>metric\<close>, a
  union of the internal fields (\<open>featureIndex\<close>, \<open>threshold\<close>) and the leaf fields
  (\<open>prediction\<close>, \<open>nodePrediction\<close>), and the two owning child pointers \<open>leftChild\<close> and
  \<open>rightChild\<close>. The flag and the active member of the union are one constructor here:
  \<open>Leaf samples metric prediction nodePrediction\<close> is a node after \<open>makeLeaf\<close> (which also
  releases both children), \<open>Internal samples metric featureIndex threshold leftChild
  rightChild\<close> is a node whose flag is false. A pointer is an \<open>option\<close>, \<open>None\<close> being
  \<open>nullptr\<close>. The raw pointers \<open>info.internal.left/right\<close> are written but never read by the
  engine (\<open>getLeft\<close> and \<open>getRight\<close> go through the owning pointers) and are left out.
\<close>

datatype Node =
    Leaf nat real real real
  | Internal nat real int real "Node option" "Node option"


fun isLeaf :: "Node \<Rightarrow> bool" where
  "isLeaf (Leaf s m p np) = True"
| "isLeaf (Internal s m f t l r) = False"

fun samples :: "Node \<Rightarrow> nat" where
  "samples (Leaf s m p np) = s"
| "samples (Internal s m f t l r) = s"

fun metric :: "Node \<Rightarrow> real" where
  "metric (Leaf s m p np) = m"
| "metric (Internal s m f t l r) = m"

definition makeLeaf :: "Node \<Rightarrow> real \<Rightarrow> real \<Rightarrow> Node" where
  "makeLeaf n prediction nodePrediction =
     Leaf (samples n) (metric n) prediction
          (if nodePrediction \<noteq> 0 then nodePrediction else prediction)"

definition makeInternal :: "Node \<Rightarrow> int \<Rightarrow> real \<Rightarrow> Node" where
  \<comment> \<open>called by the trainer on a node that has no children yet\<close>
  "makeInternal n featureIndex threshold =
     Internal (samples n) (metric n) featureIndex threshold None None"

fun getFeatureIndex :: "Node \<Rightarrow> int" where
  "getFeatureIndex (Leaf s m p np) = - 1"
| "getFeatureIndex (Internal s m f t l r) = f"

fun getThreshold :: "Node \<Rightarrow> real" where
  "getThreshold (Leaf s m p np) = 0"
| "getThreshold (Internal s m f t l r) = t"

fun getPrediction :: "Node \<Rightarrow> real" where
  "getPrediction (Leaf s m p np) = p"
| "getPrediction (Internal s m f t l r) = 0"

fun getNodePrediction :: "Node \<Rightarrow> real" where
  "getNodePrediction (Leaf s m p np) = np"
| "getNodePrediction (Internal s m f t l r) = 0"

fun getLeft :: "Node \<Rightarrow> Node option" where
  "getLeft (Leaf s m p np) = None"
| "getLeft (Internal s m f t l r) = l"

fun getRight :: "Node \<Rightarrow> Node option" where
  "getRight (Leaf s m p np) = None"
| "getRight (Internal s m f t l r) = r"

section \<open>Criteria (src/tree/criterion)\<close>

text \<open>
  Every criterion returns \<open>0.0\<close> on an empty index set and otherwise accumulates over
  \<open>labels[indices[i]]\<close>. The accumulation loops (some of them OpenMP reductions) are sums
  over the index sequence; with exact arithmetic the order of summation does not matter.
\<close>

definition MSECriterion_nodeMetric :: "real list \<Rightarrow> int list \<Rightarrow> real" where
  "MSECriterion_nodeMetric labels indices =
     (if indices = [] then 0
      else let n = length indices;
               sum = (\<Sum>i\<leftarrow>indices. vec_at labels i);
               sumSq = (\<Sum>i\<leftarrow>indices. vec_at labels i * vec_at labels i);
               mean = sum / real n;
               mse = sumSq / real n - mean * mean
           in max 0 mse)"

definition subsetMedianParallel :: "real list \<Rightarrow> int list \<Rightarrow> real" where
  \<comment> \<open>\<open>std::nth_element\<close> at \<open>n/2\<close> leaves there the element a full sort would; for even
      \<open>n\<close> the maximum of the part before it is the element before it in sorted order\<close>
  "subsetMedianParallel y idx =
     (let v = sort (map (vec_at y) idx); n = length v
      in if n mod 2 = 1 then v ! (n div 2)
         else 0.5 * (v ! (n div 2 - 1) + v ! (n div 2)))"

definition MAECriterion_nodeMetric :: "real list \<Rightarrow> int list \<Rightarrow> real" where
  "MAECriterion_nodeMetric labels indices =
     (if indices = [] then 0
      else let med = subsetMedianParallel labels indices;
               sumAbs = (\<Sum>i\<leftarrow>indices. \<bar>vec_at labels i - med\<bar>)
           in sumAbs / real (length indices))"

definition HuberCriterion_nodeMetric :: "real \<Rightarrow> real list \<Rightarrow> int list \<Rightarrow> real" where
  "HuberCriterion_nodeMetric delta y idx =
     (if idx = [] then 0
      else let d = delta; n = length idx;
               sum = (\<Sum>t\<leftarrow>idx. vec_at y t);
               mu = sum / real n;
               loss = (\<Sum>t\<leftarrow>idx. let r = vec_at y t - mu; abs_r = \<bar>r\<bar>
                                  in if abs_r \<le> d then 0.5 * r * r else d * (abs_r - 0.5 * d))
           in loss / real n)"

definition LogCoshCriterion_nodeMetric :: "real list \<Rightarrow> int list \<Rightarrow> real" where
  "LogCoshCriterion_nodeMetric y idx =
     (if idx = [] then 0
      else let n = length idx;
               sum = (\<Sum>t\<leftarrow>idx. vec_at y t);
               mu = sum / real n;
               loss = (\<Sum>t\<leftarrow>idx. let r = vec_at y t - mu in ln (cosh r))
           in loss / real n)"

definition PoissonCriterion_nodeMetric :: "real list \<Rightarrow> int list \<Rightarrow> real" where
  "PoissonCriterion_nodeMetric y idx =
     (if idx = [] then 0
      else let n = length idx;
               sum = (\<Sum>t\<leftarrow>idx. vec_at y t);
               mu = max (sum / real n) EPS;
               loss = (\<Sum>t\<leftarrow>idx. let yi = max (vec_at y t) EPS in mu - yi * ln mu)
           in loss / real n)"

definition QuantileCriterion_nodeMetric :: "real \<Rightarrow> real list \<Rightarrow> int list \<Rightarrow> real" where
  \<comment> \<open>\<open>k = static_cast<size_t>(tau * (n - 1))\<close> truncates; \<open>std::nth_element\<close> at \<open>k\<close> leaves
      there the element a full sort would, and only permutes the values summed afterwards\<close>
  "QuantileCriterion_nodeMetric tau y idx =
     (if idx = [] then 0
      else let n = length idx;
               vals = map (vec_at y) idx;
               k = nat \<lfloor>tau * real (n - 1)\<rfloor>;
               q = sort vals ! k;
               loss = (\<Sum>x\<leftarrow>vals. let v = x - q in if v < 0 then (tau - 1) * v else tau * v)
           in loss / real n)"

text \<open>The criterion a trainer or finder is configured with (\<open>ISplitCriterion\<close>).\<close>

datatype criterion = MSE | MAE | Huber real | Quantile real | LogCosh | Poisson

fun nodeMetric :: "criterion \<Rightarrow> real list \<Rightarrow> int list \<Rightarrow> real" where
  "nodeMetric MSE = MSECriterion_nodeMetric"
| "nodeMetric MAE = MAECriterion_nodeMetric"
| "nodeMetric (Huber delta) = HuberCriterion_nodeMetric delta"
| "nodeMetric (Quantile tau) = QuantileCriterion_nodeMetric tau"
| "nodeMetric LogCosh = LogCoshCriterion_nodeMetric"
| "nodeMetric Poisson = PoissonCriterion_nodeMetric"

section \<open>Pruners (src/tree/pruner, include/pruner)\<close>

text \<open>
  The pruners dereference child pointers without a null check in some places. A null
  dereference ends the program; it is the error value \<open>NullDereference\<close>.
\<close>

datatype error = NullDereference

subsection \<open>CostComplexityPruner\<close>

fun countLeaves :: "Node option \<Rightarrow> int" where
  "countLeaves None = 1"
| "countLeaves (Some (Leaf s m p np)) = 1"
| "countLeaves (Some (Internal s m f t l r)) = countLeaves l + countLeaves r"

text \<open>
  \<open>pruneRec(Node* n)\<close> reads \<open>n->isLeaf\<close> at once, so a null argument is a null dereference.
  It returns the subtree's error; the node after the call is returned with it.
\<close>

fun CostComplexityPruner_pruneRec :: "real \<Rightarrow> Node option \<Rightarrow> error + (Node \<times> real)" where
  "CostComplexityPruner_pruneRec alpha None = Inl NullDereference"
| "CostComplexityPruner_pruneRec alpha (Some (Leaf s m p np)) = Inr (Leaf s m p np, m * real s)"
| "CostComplexityPruner_pruneRec alpha (Some (Internal s m f t l r)) =
     (case CostComplexityPruner_pruneRec alpha l of
        Inl e \<Rightarrow> Inl e
      | Inr (l', errLeft) \<Rightarrow>
     (case CostComplexityPruner_pruneRec alpha r of
        Inl e \<Rightarrow> Inl e
      | Inr (r', errRight) \<Rightarrow>
          let n = Internal s m f t (Some l') (Some r');
              subtreeError = errLeft + errRight;
              subtreeLeaves = countLeaves (getLeft n) + countLeaves (getRight n);
              leafCost = metric n * real (samples n) + alpha;
              subtreeCost = subtreeError + alpha * real_of_int subtreeLeaves
          in if leafCost \<le> subtreeCost
             then let nodePred = getNodePrediction n;
                      n' = makeLeaf n nodePred nodePred
                  in Inr (n', metric n' * real (samples n'))
             else Inr (n, subtreeError)))"

definition CostComplexityPruner_prune :: "real \<Rightarrow> Node option \<Rightarrow> error + Node option" where
  "CostComplexityPruner_prune alpha rt =
     (case rt of
        None \<Rightarrow> Inr None
      | Some n \<Rightarrow> (case CostComplexityPruner_pruneRec alpha (Some n) of
                     Inl e \<Rightarrow> Inl e
                   | Inr (n', err) \<Rightarrow> Inr (Some n')))"

subsection \<open>ReducedErrorPruner\<close>

text \<open>
  \<open>validate(n)\<close> descends from \<open>n\<close> for every validation row \<open>i\<close> (the row starts at
  \<open>Xv[i * D]\<close>), accumulates the squared differences and divides by \<open>yv.size()\<close>. With an
  empty \<open>yv\<close> the quotient is \<open>0.0 / 0\<close>, a NaN: the result is then \<open>None\<close>, and \<open>nan_le\<close>
  is the comparison \<open><=\<close> of two such results, false when one of them is a NaN.
\<close>

fun validate_descend :: "real list \<Rightarrow> int \<Rightarrow> Node option \<Rightarrow> error + real" where
  "validate_descend Xv off None = Inl NullDereference"
| "validate_descend Xv off (Some (Leaf s m p np)) = Inr (getPrediction (Leaf s m p np))"
| "validate_descend Xv off (Some (Internal s m f t l r)) =
     (if vec_at Xv (off + getFeatureIndex (Internal s m f t l r))
           \<le> getThreshold (Internal s m f t l r)
      then validate_descend Xv off l else validate_descend Xv off r)"

fun validate_loop ::
  "real list \<Rightarrow> int \<Rightarrow> real list \<Rightarrow> Node \<Rightarrow> nat list \<Rightarrow> real \<Rightarrow> error + real" where
  "validate_loop Xv D yv n [] mse = Inr mse"
| "validate_loop Xv D yv n (i # rest) mse =
     (case validate_descend Xv (int i * D) (Some n) of
        Inl e \<Rightarrow> Inl e
      | Inr p \<Rightarrow> let diff = yv ! i - p in validate_loop Xv D yv n rest (mse + diff * diff))"

definition ReducedErrorPruner_validate ::
  "real list \<Rightarrow> int \<Rightarrow> real list \<Rightarrow> Node \<Rightarrow> error + real option" where
  "ReducedErrorPruner_validate Xv D yv n =
     (case validate_loop Xv D yv n [0..<length yv] 0 of
        Inl e \<Rightarrow> Inl e
      | Inr mse \<Rightarrow> Inr (if yv = [] then None else Some (mse / real (length yv))))"

fun nan_le :: "real option \<Rightarrow> real option \<Rightarrow> bool" where
  "nan_le (Some a) (Some b) = (a \<le> b)"
| "nan_le a b = False"

text \<open>
  \<open>pruneRec\<close> prunes both children, moves them out, calls \<open>makeLeaf\<close> on the node and
  validates it, then sets \<open>isLeaf\<close> back, moves the children in again and validates once
  more. \<open>makeLeaf\<close> has stored \<open>prediction\<close> and \<open>nodePrediction\<close> in the union that also
  holds \<open>featureIndex\<close> and \<open>threshold\<close>, and the restore step writes neither of the two. The
  value written was \<open>getNodePrediction()\<close> of a node that is not a leaf, \<open>0.0\<close>, twice; read
  back through the internal member, the bytes of two doubles \<open>0.0\<close> are \<open>featureIndex = 0\<close>
  and \<open>threshold = 0.0\<close>. \<open>stale_internal_fields\<close> is this pair. No proof below but the
  evaluations on concrete trees depends on its value, and those trees split on feature \<open>0\<close> at
  threshold \<open>0.0\<close> throughout.
\<close>

definition stale_internal_fields :: "int \<times> real" where
  "stale_internal_fields = (0, 0)"

fun ReducedErrorPruner_pruneRec ::
  "real list \<Rightarrow> int \<Rightarrow> real list \<Rightarrow> Node option \<Rightarrow> error + Node option" where
  "ReducedErrorPruner_pruneRec Xv D yv None = Inr None"
| "ReducedErrorPruner_pruneRec Xv D yv (Some (Leaf s m p np)) = Inr (Some (Leaf s m p np))"
| "ReducedErrorPruner_pruneRec Xv D yv (Some (Internal s m f t l r)) =
     (case ReducedErrorPruner_pruneRec Xv D yv l of
        Inl e \<Rightarrow> Inl e
      | Inr l' \<Rightarrow>
     (case ReducedErrorPruner_pruneRec Xv D yv r of
        Inl e \<Rightarrow> Inl e
      | Inr r' \<Rightarrow>
          let n = Internal s m f t None None;
              oldIsLeaf = isLeaf n;
              leafPrediction0 = getNodePrediction n;
              leafPrediction = (if leafPrediction0 = 0 \<and> \<not> oldIsLeaf then 0 else leafPrediction0);
              pruned = makeLeaf n leafPrediction leafPrediction
          in (case ReducedErrorPruner_validate Xv D yv pruned of
                Inl e \<Rightarrow> Inl e
              | Inr msePruned \<Rightarrow>
                  let restored = Internal s m (fst stale_internal_fields)
                                   (snd stale_internal_fields) l' r'
                  in (case ReducedErrorPruner_validate Xv D yv restored of
                        Inl e \<Rightarrow> Inl e
                      | Inr mseOriginal \<Rightarrow>
                          if nan_le msePruned mseOriginal
                          then Inr (Some (makeLeaf restored leafPrediction leafPrediction))
                          else Inr (Some restored)))))"

subsection \<open>The pruner family (IPruner)\<close>

text \<open>
  \<open>NoPruner::prune\<close> and \<open>MinGainPrePruner::prune\<close> have empty bodies; the min-gain
  threshold is read by the trainer while it grows the tree.
\<close>

datatype pruner =
    NoPruner
  | MinGainPrePruner real
  | CostComplexityPruner real
  | ReducedErrorPruner "real list" int "real list"

fun prune :: "pruner \<Rightarrow> Node option \<Rightarrow> error + Node option" where
  "prune NoPruner rt = Inr rt"
| "prune (MinGainPrePruner minGain) rt = Inr rt"
| "prune (CostComplexityPruner alpha) rt = CostComplexityPruner_prune alpha rt"
| "prune (ReducedErrorPruner Xv D yv) rt = ReducedErrorPruner_pruneRec Xv D yv rt"

subsection \<open>Predicates on trees used in the statements\<close>

text \<open>
  \<open>well_formed\<close>: every node that is not a leaf has both children, as every node has that
  the trainer made internal and whose two child tasks ran. \<open>created_with_positive_gain\<close>:
  in addition every such node has a positive sample count and a positive gain, the gain
  being (as the finders compute it) the node's metric minus the sample-weighted mean of its
  children's metrics, taken from the cached \<open>metric\<close> and \<open>samples\<close> fields.
  \<open>leaves_error\<close> is the sum of \<open>metric * samples\<close> over the leaves of a tree.
\<close>

fun well_formed :: "Node \<Rightarrow> bool" where
  "well_formed (Leaf s m p np) = True"
| "well_formed (Internal s m f t (Some l) (Some r)) = (well_formed l \<and> well_formed r)"
| "well_formed (Internal s m f t l r) = False"



text \<open>
  \<open>SingleTreeTrainer::predict\<close>, from a node and for the row of \<open>X\<close> that starts at \<open>off\<close>;
  a null pointer ends the descent with \<open>0.0\<close>.
\<close>

fun predict_from :: "Node option \<Rightarrow> real list \<Rightarrow> int \<Rightarrow> real" where
  "predict_from None X off = 0"
| "predict_from (Some (Leaf s m p np)) X off = getPrediction (Leaf s m p np)"
| "predict_from (Some (Internal s m f t l r)) X off =
     (let v = vec_at X (off + getFeatureIndex (Internal s m f t l r))
      in if v \<le> getThreshold (Internal s m f t l r)
         then predict_from (getLeft (Internal s m f t l r)) X off
         else predict_from (getRight (Internal s m f t l r)) X off)"


section \<open>Split finders (src/tree/finder)\<close>

text \<open>
  \<open>ISplitFinder::findBestSplit(data, rowLength, labels, indices, currentMetric, criterion)\<close>
  returns the triple (feature index, threshold, gain). A gain can be minus infinity (the
  initial best gain of every finder but the exhaustive one).
\<close>

type_synonym split_finder =
  "real list \<Rightarrow> int \<Rightarrow> real list \<Rightarrow> int list \<Rightarrow> real \<Rightarrow> criterion \<Rightarrow> int \<times> real \<times> xdouble"

subsection \<open>ExhaustiveSplitFinder\<close>








subsection \<open>QuartileSplitFinder\<close>





subsection \<open>Histogram, adaptive and random finders\<close>






section \<open>SingleTreeTrainer (src/tree/trainer/SingleTreeTrainer.cpp)\<close>

record SingleTreeTrainer =
  maxDepth :: int
  minSamplesLeaf :: int
  finder :: split_finder
  criterion :: criterion
  pruner :: pruner



























section \<open>Theorems\<close>

subsection \<open>Node\<close>

text \<open>
  C10. For every call \<open>makeLeaf(p, np)\<close> the stored \<open>nodePrediction\<close> is \<open>np\<close> when
  \<open>np \<noteq> 0.0\<close> and \<open>p\<close> when \<open>np = 0.0\<close> (a node mean of exactly \<open>0.0\<close> is replaced by the
  prediction), and \<open>getNodePrediction\<close> of every node in the internal variant is \<open>0.0\<close>,
  whatever the node was grown from.
\<close>

theorem makeLeaf_nodePrediction:
  "getNodePrediction (makeLeaf n p np) = (if np \<noteq> 0 then np else p)
   \<and> getPrediction (makeLeaf n p np) = p
   \<and> isLeaf (makeLeaf n p np)
   \<and> getNodePrediction (Internal s m f t l r) = 0"
  by (simp add: makeLeaf_def)

subsection \<open>Criteria\<close>

lemma sum_list_map_nonneg:
  fixes f :: "'a \<Rightarrow> real"
  assumes "\<And>x. x \<in> set xs \<Longrightarrow> 0 \<le> f x"
  shows "0 \<le> (\<Sum>x\<leftarrow>xs. f x)"
  using assms by (induction xs) auto

lemma MSE_nonneg: "0 \<le> MSECriterion_nodeMetric labels indices"
  by (simp add: MSECriterion_nodeMetric_def Let_def)

lemma MAE_nonneg: "0 \<le> MAECriterion_nodeMetric labels indices"
  by (simp add: MAECriterion_nodeMetric_def Let_def sum_list_map_nonneg)

lemma Huber_nonneg:
  assumes "0 \<le> delta"
  shows "0 \<le> HuberCriterion_nodeMetric delta y idx"
proof -
  have summand: "0 \<le> (let r = x - mu; abs_r = \<bar>r\<bar>
                   in if abs_r \<le> delta then 0.5 * r * r else delta * (abs_r - 0.5 * delta))"
    for x mu :: real
  proof (cases "\<bar>x - mu\<bar> \<le> delta")
    case True
    have "0 \<le> (x - mu) * (x - mu)" by simp
    with True show ?thesis by (simp add: Let_def mult.assoc)
  next
    case False
    then have "0 \<le> \<bar>x - mu\<bar> - 0.5 * delta" using assms by simp
    with assms have "0 \<le> delta * (\<bar>x - mu\<bar> - 0.5 * delta)" by (rule mult_nonneg_nonneg)
    with False show ?thesis by (simp add: Let_def)
  qed
  show ?thesis
    unfolding HuberCriterion_nodeMetric_def Let_def
    using summand [unfolded Let_def]
    by (auto intro!: divide_nonneg_nonneg sum_list_map_nonneg)
qed

lemma LogCosh_nonneg: "0 \<le> LogCoshCriterion_nodeMetric y idx"
  unfolding LogCoshCriterion_nodeMetric_def Let_def
  by (auto intro!: divide_nonneg_nonneg sum_list_map_nonneg ln_ge_zero cosh_real_ge_1)

lemma Quantile_nonneg:
  assumes "0 \<le> tau" "tau \<le> 1"
  shows "0 \<le> QuantileCriterion_nodeMetric tau y idx"
proof (cases "idx = []")
  case True
  then show ?thesis by (simp add: QuantileCriterion_nodeMetric_def)
next
  case False
  define q where "q = sort (map (vec_at y) idx) ! nat \<lfloor>tau * real (length idx - 1)\<rfloor>"
  have summand: "0 \<le> (if v < 0 then (tau - 1) * v else tau * v)" for v :: real
    using assms by (auto intro: mult_nonpos_nonpos)
  have "0 \<le> (\<Sum>x\<leftarrow>map (vec_at y) idx.
                 if x - q < 0 then (tau - 1) * (x - q) else tau * (x - q))"
    by (rule sum_list_map_nonneg) (rule summand)
  then have "0 \<le> (\<Sum>x\<leftarrow>map (vec_at y) idx.
                 if x - q < 0 then (tau - 1) * (x - q) else tau * (x - q))
                / real (length idx)"
    by (rule divide_nonneg_nonneg) simp
  moreover have "QuantileCriterion_nodeMetric tau y idx =
      (\<Sum>x\<leftarrow>map (vec_at y) idx.
                 if x - q < 0 then (tau - 1) * (x - q) else tau * (x - q))
                / real (length idx)"
    using False by (simp only: QuantileCriterion_nodeMetric_def Let_def q_def if_False)
  ultimately show ?thesis by simp
qed

lemma MSE_singleton: "MSECriterion_nodeMetric labels [i] = 0"
  by (simp add: MSECriterion_nodeMetric_def Let_def)

lemma MAE_singleton: "MAECriterion_nodeMetric labels [i] = 0"
  by (simp add: MAECriterion_nodeMetric_def subsetMedianParallel_def Let_def)

lemma Huber_singleton: "0 \<le> delta \<Longrightarrow> HuberCriterion_nodeMetric delta y [i] = 0"
  by (simp add: HuberCriterion_nodeMetric_def Let_def)

lemma LogCosh_singleton: "LogCoshCriterion_nodeMetric y [i] = 0"
  by (simp add: LogCoshCriterion_nodeMetric_def Let_def)

lemma Quantile_singleton: "QuantileCriterion_nodeMetric tau y [i] = 0"
  by (simp add: QuantileCriterion_nodeMetric_def Let_def)

lemma one_less_ln_10: "1 < ln (10::real)"
proof -
  have "exp (1::real) < 10" using exp_le by linarith
  then have "ln (exp (1::real)) < ln 10" by (subst ln_less_cancel_iff) simp_all
  then show ?thesis by simp
qed

text \<open>
  C5 (as amended). For the MSE, MAE, Huber (\<open>delta \<ge> 0\<close>), Quantile (\<open>0 \<le> tau \<le> 1\<close>) and
  Log-Cosh criteria, \<open>nodeMetric(labels, indices)\<close> is non-negative for every index set and
  is exactly \<open>0\<close> for every singleton index set. The Poisson criterion is not in the list:
  its value is the mean of \<open>mu - y * ln mu\<close>, which is negative on the single label \<open>10\<close>
  and is \<open>1\<close> on the single label \<open>1\<close>.
\<close>

theorem criterion_nonneg_singleton_zero:
  assumes "0 \<le> delta" and "0 \<le> tau" and "tau \<le> 1"
    and "c = MSE \<or> c = MAE \<or> c = Huber delta \<or> c = Quantile tau \<or> c = LogCosh"
  shows "0 \<le> nodeMetric c labels indices \<and> nodeMetric c labels [i] = 0"
  using assms
  by (auto simp: MSE_nonneg MAE_nonneg Huber_nonneg LogCosh_nonneg Quantile_nonneg
        MSE_singleton MAE_singleton Huber_singleton LogCosh_singleton Quantile_singleton)

theorem criterion_nonneg_singleton_zero_witness:
  "0 \<le> nodeMetric (Huber 1) [3, 7] [0, 1] \<and> nodeMetric (Huber 1) [3, 7] [1] = 0
   \<and> 0 \<le> nodeMetric (Quantile (1 / 2)) [3, 7] [0, 1]
   \<and> nodeMetric (Quantile (1 / 2)) [3, 7] [1] = 0"
  using criterion_nonneg_singleton_zero [of 1 "1 / 2" "Huber 1" "[3, 7]" "[0, 1]" 1]
    criterion_nonneg_singleton_zero [of 1 "1 / 2" "Quantile (1 / 2)" "[3, 7]" "[0, 1]" 1]
  by simp

theorem Poisson_negative_and_singleton_nonzero:
  "nodeMetric Poisson [10] [0] < 0 \<and> nodeMetric Poisson [1] [0] = 1"
proof -
  have "(10::real) - 10 * ln 10 < 0" using one_less_ln_10 by simp
  then show ?thesis
    by (simp add: PoissonCriterion_nodeMetric_def vec_at_def EPS_def Let_def)
qed

subsection \<open>Pruners\<close>


lemma CCP_idem:
  "CostComplexityPruner_pruneRec alpha t = Inr (n', e) \<Longrightarrow>
   CostComplexityPruner_pruneRec alpha (Some n') = Inr (n', e)"
proof (induction alpha t arbitrary: n' e rule: CostComplexityPruner_pruneRec.induct)
  case (1 alpha)
  then show ?case by simp
next
  case (2 alpha s m p np)
  then show ?case by auto
next
  case (3 alpha s m f t l r)
  from "3.prems" obtain l' eL where l: "CostComplexityPruner_pruneRec alpha l = Inr (l', eL)"
    by (auto split: sum.splits)
  from "3.prems" l obtain r' eR where r: "CostComplexityPruner_pruneRec alpha r = Inr (r', eR)"
    by (auto split: sum.splits)
  have l': "CostComplexityPruner_pruneRec alpha (Some l') = Inr (l', eL)"
    using "3.IH"(1) l by simp
  have r': "CostComplexityPruner_pruneRec alpha (Some r') = Inr (r', eR)"
    using "3.IH"(2) [OF l refl r] by simp
  show ?case
    using "3.prems" l r l' r' by (auto simp: Let_def makeLeaf_def split: if_splits)
qed

lemma CCP_total:
  "well_formed n \<Longrightarrow>
   \<exists>n' e. CostComplexityPruner_pruneRec alpha (Some n) = Inr (n', e) \<and> well_formed n'"
proof (induction n rule: well_formed.induct)
  case (2 s m f t l r)
  then obtain l' eL r' eR where
    "CostComplexityPruner_pruneRec alpha (Some l) = Inr (l', eL)" "well_formed l'"
    "CostComplexityPruner_pruneRec alpha (Some r) = Inr (r', eR)" "well_formed r'"
    by auto
  then show ?case by (simp add: Let_def makeLeaf_def)
qed simp_all

lemma validate_descend_wf:
  "well_formed n \<Longrightarrow> validate_descend Xv off (Some n) = Inr (predict_from (Some n) Xv off)"
  by (induction n rule: well_formed.induct) simp_all

lemma validate_loop_wf:
  "well_formed n \<Longrightarrow>
   validate_loop Xv D yv n is mse =
     Inr (mse + (\<Sum>i\<leftarrow>is. (yv ! i - predict_from (Some n) Xv (int i * D))\<^sup>2))"
  by (induction "is" arbitrary: mse)
     (simp_all add: validate_descend_wf Let_def power2_eq_square)


lemma validate_wf_total:
  "well_formed n \<Longrightarrow> \<exists>v. ReducedErrorPruner_validate Xv D yv n = Inr v"
  by (simp add: ReducedErrorPruner_validate_def validate_loop_wf)

lemma REP_total:
  "well_formed n \<Longrightarrow>
   \<exists>n'. ReducedErrorPruner_pruneRec Xv D yv (Some n) = Inr (Some n') \<and> well_formed n'"
proof (induction n rule: well_formed.induct)
  case (2 s m f t l r)
  then obtain l' r' where l: "ReducedErrorPruner_pruneRec Xv D yv (Some l) = Inr (Some l')"
    and wl: "well_formed l'"
    and r: "ReducedErrorPruner_pruneRec Xv D yv (Some r) = Inr (Some r')"
    and wr: "well_formed r'"
    by auto
  obtain a where a: "ReducedErrorPruner_validate Xv D yv (Leaf s m 0 0) = Inr a"
    using validate_wf_total [of "Leaf s m 0 0" Xv D yv] by auto
  have "well_formed (Internal s m (fst stale_internal_fields) (snd stale_internal_fields)
                      (Some l') (Some r'))"
    using wl wr by simp
  then obtain b where b: "ReducedErrorPruner_validate Xv D yv
      (Internal s m (fst stale_internal_fields) (snd stale_internal_fields) (Some l') (Some r'))
       = Inr b"
    using validate_wf_total by blast
  show ?case using l r a b wl wr by (simp add: Let_def makeLeaf_def)
qed simp_all

lemma REP_idem:
  "ReducedErrorPruner_pruneRec Xv D yv t = Inr t' \<Longrightarrow>
   ReducedErrorPruner_pruneRec Xv D yv t' = Inr t'"
proof (induction Xv D yv t arbitrary: t' rule: ReducedErrorPruner_pruneRec.induct)
  case (1 Xv D yv)
  then show ?case by auto
next
  case (2 Xv D yv s m p np)
  then show ?case by auto
next
  case (3 Xv D yv s m f t l r)
  from "3.prems" obtain l' where l: "ReducedErrorPruner_pruneRec Xv D yv l = Inr l'"
    by (auto split: sum.splits)
  from "3.prems" l obtain r' where r: "ReducedErrorPruner_pruneRec Xv D yv r = Inr r'"
    by (auto split: sum.splits)
  have l': "ReducedErrorPruner_pruneRec Xv D yv l' = Inr l'" using "3.IH"(1) l by simp
  have r': "ReducedErrorPruner_pruneRec Xv D yv r' = Inr r'" using "3.IH"(2) [OF l r] by simp
  show ?case
    using "3.prems" l r l' r'
    by (auto simp: Let_def makeLeaf_def split: sum.splits if_splits)
qed



text \<open>
  C8. For every pruner of the family and every tree, pruning is idempotent: pruning the
  result of a pruning run returns it unchanged. A run returns (it does not end in a null
  dereference) on every well-formed tree.
\<close>

theorem prune_idempotent:
  "(prune P t = Inr t' \<longrightarrow> prune P t' = Inr t')
   \<and> ((\<forall>n\<in>set_option t. well_formed n) \<longrightarrow> (\<exists>t''. prune P t = Inr t''))"
proof (cases P)
  case NoPruner
  then show ?thesis by auto
next
  case (MinGainPrePruner g)
  then show ?thesis by auto
next
  case (CostComplexityPruner alpha)
  have "prune P t' = Inr t'" if "prune P t = Inr t'"
  proof (cases t)
    case None
    with that CostComplexityPruner show ?thesis
      by (simp add: CostComplexityPruner_prune_def)
  next
    case (Some n)
    with that CostComplexityPruner obtain n' e
      where *: "CostComplexityPruner_pruneRec alpha (Some n) = Inr (n', e)" and "t' = Some n'"
      by (auto simp: CostComplexityPruner_prune_def split: sum.splits)
    with CCP_idem [OF *] CostComplexityPruner show ?thesis
      by (simp add: CostComplexityPruner_prune_def)
  qed
  moreover have "\<exists>t''. prune P t = Inr t''" if "\<forall>n\<in>set_option t. well_formed n"
  proof (cases t)
    case None
    with CostComplexityPruner show ?thesis by (simp add: CostComplexityPruner_prune_def)
  next
    case (Some n)
    with that have "well_formed n" by simp
    from CCP_total [OF this, of alpha] Some CostComplexityPruner show ?thesis
      by (auto simp: CostComplexityPruner_prune_def)
  qed
  ultimately show ?thesis by blast
next
  case (ReducedErrorPruner Xv D yv)
  have "\<exists>t''. prune P t = Inr t''" if "\<forall>n\<in>set_option t. well_formed n"
  proof (cases t)
    case None
    with ReducedErrorPruner show ?thesis by simp
  next
    case (Some n)
    with that have "well_formed n" by simp
    from REP_total [OF this, of Xv D yv] Some ReducedErrorPruner show ?thesis by auto
  qed
  with ReducedErrorPruner show ?thesis by (auto dest: REP_idem)
qed

theorem prune_idempotent_witness:
  "prune (CostComplexityPruner 40)
     (Some (Internal 8 4 0 (9 / 2) (Some (Leaf 4 0 1 1)) (Some (Leaf 4 0 5 5))))
     = Inr (Some (Leaf 8 4 0 0))
   \<and> prune (CostComplexityPruner 40) (Some (Leaf 8 4 0 0)) = Inr (Some (Leaf 8 4 0 0))"
proof -
  have first: "prune (CostComplexityPruner 40)
     (Some (Internal 8 4 0 (9 / 2) (Some (Leaf 4 0 1 1)) (Some (Leaf 4 0 5 5))))
     = Inr (Some (Leaf 8 4 0 0))"
    by (simp add: CostComplexityPruner_prune_def Let_def makeLeaf_def)
  from prune_idempotent [of "CostComplexityPruner 40"
         "Some (Internal 8 4 0 (9 / 2) (Some (Leaf 4 0 1 1)) (Some (Leaf 4 0 5 5)))"
         "Some (Leaf 8 4 0 0)"] first
  show ?thesis by blast
qed





subsection \<open>Growing a tree\<close>



















subsection \<open>Split finders\<close>
















subsection \<open>Scenario A\<close>

























end
